theory Spec2Isabelle
  imports Complex_Main "HOL-Library.Word"
begin

section \<open>JavaScript values as the handlers of app.js see them\<close>

text \<open>
  The handlers of \<^verbatim>\<open>src/app.js\<close> read their input from \<^verbatim>\<open>req.body\<close>, which the body
  parsers fill with the value of a JSON or form document. Such a value is untyped: the
  source applies \<^verbatim>\<open>!x\<close>, \<^verbatim>\<open>x < 1\<close> and \<^verbatim>\<open>x > 4\<close> to whatever arrives. The model keeps
  the value untyped too and spells the three operators out as ECMAScript defines them.

  A number is an IEEE binary64 value: \<open>Fin q\<close> is the finite double whose exact value is
  the rational \<open>q\<close> (the two zeros are one value here: both are falsy and compare
  equal). A string is a list of code units below 256. An object is the list of its own
  properties, each name once.
\<close>

datatype jsnum = NaN | PosInf | NegInf | Fin rat

datatype jsval =
    JUndefined
  | JNull
  | JBool bool
  | JNum jsnum
  | JStr string
  | JArr "jsval list"
  | JObj "(string \<times> jsval) list"

text \<open>An exception is the \<^verbatim>\<open>Error\<close> object thrown; the handlers only read its message.\<close>

datatype error = Error (message: string)

subsection \<open>Truthiness: what \<^verbatim>\<open>!x\<close> and \<^verbatim>\<open>x ? a : b\<close> test\<close>

fun truthy :: "jsval \<Rightarrow> bool" where
  "truthy JUndefined = False"
| "truthy JNull = False"
| "truthy (JBool b) = b"
| "truthy (JNum n) = (n \<noteq> NaN \<and> n \<noteq> Fin 0)"
| "truthy (JStr s) = (s \<noteq> [])"
| "truthy (JArr xs) = True"
| "truthy (JObj kvs) = True"

subsection \<open>Rounding a rational to the nearest double\<close>

definition pow2 :: "int \<Rightarrow> rat" where
  "pow2 i = (if 0 \<le> i then 2 ^ nat i else 1 / 2 ^ nat (- i))"

definition pow10 :: "int \<Rightarrow> rat" where
  "pow10 i = (if 0 \<le> i then 10 ^ nat i else 1 / 10 ^ nat (- i))"

fun bit_length :: "nat \<Rightarrow> nat" where
  "bit_length n = (if n = 0 then 0 else Suc (bit_length (n div 2)))"

declare bit_length.simps [simp del]

definition floor_log2 :: "rat \<Rightarrow> int" where
  \<comment> \<open>for \<open>0 < x\<close>: the \<open>e\<close> with \<open>2 ^ e \<le> x < 2 ^ (e + 1)\<close>\<close>
  "floor_log2 x =
     (let (p, q) = quotient_of x;
          d = int (bit_length (nat p)) - int (bit_length (nat q))
      in if pow2 d \<le> x then d else d - 1)"

definition round_half_even :: "rat \<Rightarrow> int" where
  "round_half_even q =
     (let f = \<lfloor>q\<rfloor>; r = q - of_int f
      in if r < 1 / 2 then f
         else if 1 / 2 < r then f + 1
         else if even f then f else f + 1)"

definition round_double_pos :: "rat \<Rightarrow> jsnum" where
  \<comment> \<open>for \<open>0 < x\<close>: 53 significant bits, exponent at least -1022, overflow to infinity\<close>
  "round_double_pos x =
     (let e = max (floor_log2 x) (- 1022);
          ulp = pow2 (e - 52);
          y = of_int (round_half_even (x / ulp)) * ulp
      in if pow2 1024 \<le> y then PosInf else Fin y)"

fun negate :: "jsnum \<Rightarrow> jsnum" where
  "negate NaN = NaN"
| "negate PosInf = NegInf"
| "negate NegInf = PosInf"
| "negate (Fin q) = Fin (- q)"

definition round_double :: "rat \<Rightarrow> jsnum" where
  "round_double x =
     (if x = 0 then Fin 0
      else if 0 < x then round_double_pos x
      else negate (round_double_pos (- x)))"

subsection \<open>\<^verbatim>\<open>StringToNumber\<close>: the numeric value of a string\<close>

text \<open>
  ECMAScript's \<^verbatim>\<open>StringNumericLiteral\<close>: optional white space around either nothing (the
  value 0), a signed decimal literal (digits, fraction, exponent, or \<^verbatim>\<open>Infinity\<close>), or an
  unsigned binary, octal or hexadecimal integer literal. Anything else is \<^verbatim>\<open>NaN\<close>.
\<close>

definition is_ws :: "char \<Rightarrow> bool" where
  "is_ws c = (c \<in> set [CHR 0x09, CHR 0x0A, CHR 0x0B, CHR 0x0C, CHR 0x0D, CHR 0x20, CHR 0xA0])"

definition trim :: "string \<Rightarrow> string" where
  "trim s = dropWhile is_ws (rev (dropWhile is_ws (rev s)))"

definition digit_in :: "nat \<Rightarrow> char \<Rightarrow> nat option" where
  "digit_in radix c =
     (case map_of
             [(CHR ''0'', 0), (CHR ''1'', 1), (CHR ''2'', 2), (CHR ''3'', 3), (CHR ''4'', 4),
              (CHR ''5'', 5), (CHR ''6'', 6), (CHR ''7'', 7), (CHR ''8'', 8), (CHR ''9'', 9),
              (CHR ''a'', 10), (CHR ''b'', 11), (CHR ''c'', 12), (CHR ''d'', 13), (CHR ''e'', 14),
              (CHR ''f'', 15), (CHR ''A'', 10), (CHR ''B'', 11), (CHR ''C'', 12), (CHR ''D'', 13),
              (CHR ''E'', 14), (CHR ''F'', 15)] c of
        None \<Rightarrow> None
      | Some v \<Rightarrow> if v < radix then Some v else None)"

definition is_digit :: "char \<Rightarrow> bool" where
  "is_digit c = (digit_in 10 c \<noteq> None)"

fun digits_value :: "nat \<Rightarrow> string \<Rightarrow> nat \<Rightarrow> nat option" where
  "digits_value radix [] acc = Some acc"
| "digits_value radix (c # cs) acc =
     (case digit_in radix c of
        None \<Rightarrow> None
      | Some d \<Rightarrow> digits_value radix cs (acc * radix + d))"

definition integer_literal :: "nat \<Rightarrow> string \<Rightarrow> nat option" where
  \<comment> \<open>one or more digits of the radix, and nothing else\<close>
  "integer_literal radix ds = (if ds = [] then None else digits_value radix ds 0)"

definition exponent_part :: "string \<Rightarrow> int option" where
  "exponent_part r =
     (case r of
        [] \<Rightarrow> Some 0
      | c # ds \<Rightarrow>
          if c = CHR ''e'' \<or> c = CHR ''E'' then
            (case ds of
               [] \<Rightarrow> None
             | s # ds' \<Rightarrow>
                 if s = CHR ''+'' then map_option int (integer_literal 10 ds')
                 else if s = CHR ''-'' then map_option (\<lambda>n. - int n) (integer_literal 10 ds')
                 else map_option int (integer_literal 10 ds))
          else None)"

definition unsigned_decimal :: "string \<Rightarrow> rat option" where
  "unsigned_decimal s =
     (let ip = takeWhile is_digit s;
          r1 = dropWhile is_digit s;
          has_dot = (r1 \<noteq> [] \<and> hd r1 = CHR ''.'');
          fp = (if has_dot then takeWhile is_digit (tl r1) else []);
          r2 = (if has_dot then dropWhile is_digit (tl r1) else r1)
      in if ip = [] \<and> fp = [] then None
         else (case (digits_value 10 (ip @ fp) 0, exponent_part r2) of
                 (Some m, Some ex) \<Rightarrow> Some (of_nat m * pow10 (ex - int (length fp)))
               | _ \<Rightarrow> None))"

definition unsigned_literal :: "string \<Rightarrow> jsnum" where
  "unsigned_literal s =
     (if s = ''Infinity'' then PosInf
      else (case unsigned_decimal s of None \<Rightarrow> NaN | Some q \<Rightarrow> round_double q))"

definition decimal_literal :: "string \<Rightarrow> jsnum" where
  "decimal_literal s =
     (case s of
        [] \<Rightarrow> NaN
      | c # t \<Rightarrow>
          if c = CHR ''+'' then unsigned_literal t
          else if c = CHR ''-'' then negate (unsigned_literal t)
          else unsigned_literal s)"

definition non_decimal_literal :: "string \<Rightarrow> jsnum option" where
  "non_decimal_literal s =
     (case s of
        z # x # ds \<Rightarrow>
          if z \<noteq> CHR ''0'' then None
          else
            (let radix = (if x = CHR ''x'' \<or> x = CHR ''X'' then 16
                          else if x = CHR ''o'' \<or> x = CHR ''O'' then 8
                          else if x = CHR ''b'' \<or> x = CHR ''B'' then 2 else (0::nat))
             in if radix = 0 then None
                else (case integer_literal radix ds of
                        None \<Rightarrow> Some NaN
                      | Some n \<Rightarrow> Some (round_double (of_nat n))))
      | _ \<Rightarrow> None)"

definition StringToNumber :: "string \<Rightarrow> jsnum" where
  "StringToNumber s =
     (let t = trim s
      in if t = [] then Fin 0
         else (case non_decimal_literal t of
                 Some n \<Rightarrow> n
               | None \<Rightarrow> decimal_literal t))"

subsection \<open>\<^verbatim>\<open>ToNumber\<close> and the relational operators\<close>

text \<open>
  \<^verbatim>\<open>x < 1\<close> with a number on the right converts \<open>x\<close> with \<^verbatim>\<open>ToNumber\<close> and compares;
  any comparison with \<^verbatim>\<open>NaN\<close> is false. A value parsed from JSON has no callable
  property of its own, so converting an object to a primitive goes through the inherited
  methods: a plain object becomes \<^verbatim>\<open>[object Object]\<close> (not a number) unless it has a
  property \<^verbatim>\<open>toString\<close> of its own, which hides the inherited method and makes the
  conversion throw; an array becomes its elements' strings joined by commas. The joined
  string of two or more elements contains a comma and is therefore not numeric; the
  string of a single element converts as that element does (a number prints to a string
  that reads back as the same number; \<^verbatim>\<open>null\<close> and \<^verbatim>\<open>undefined\<close> print as the empty
  string, a boolean as a word).
\<close>

definition has_own :: "(string \<times> jsval) list \<Rightarrow> string \<Rightarrow> bool" where
  "has_own kvs k = (map_of kvs k \<noteq> None)"

definition not_primitive :: error where
  "not_primitive = Error ''Cannot convert object to primitive value''"

fun unprintable :: "jsval \<Rightarrow> bool" where
  "unprintable (JObj kvs) = has_own kvs ''toString''"
| "unprintable (JArr xs) = list_ex unprintable xs"
| "unprintable v = False"

fun ToNumber :: "jsval \<Rightarrow> error + jsnum" where
  "ToNumber JUndefined = Inr NaN"
| "ToNumber JNull = Inr (Fin 0)"
| "ToNumber (JBool b) = Inr (Fin (if b then 1 else 0))"
| "ToNumber (JNum n) = Inr n"
| "ToNumber (JStr s) = Inr (StringToNumber s)"
| "ToNumber (JObj kvs) = (if has_own kvs ''toString'' then Inl not_primitive else Inr NaN)"
| "ToNumber (JArr []) = Inr (Fin 0)"
| "ToNumber (JArr [JUndefined]) = Inr (Fin 0)"
| "ToNumber (JArr [JNull]) = Inr (Fin 0)"
| "ToNumber (JArr [JBool b]) = Inr NaN"
| "ToNumber (JArr [x]) = ToNumber x"
| "ToNumber (JArr xs) = (if list_ex unprintable xs then Inl not_primitive else Inr NaN)"

fun num_less :: "jsnum \<Rightarrow> jsnum \<Rightarrow> bool" where
  "num_less NaN b = False"
| "num_less a NaN = False"
| "num_less (Fin a) (Fin b) = (a < b)"
| "num_less a NegInf = False"
| "num_less PosInf b = False"
| "num_less NegInf b = True"
| "num_less (Fin a) PosInf = True"

definition js_lt :: "jsval \<Rightarrow> rat \<Rightarrow> error + bool" where
  \<comment> \<open>\<^verbatim>\<open>x < c\<close> for a numeric literal \<open>c\<close>\<close>
  "js_lt x c = (case ToNumber x of Inl e \<Rightarrow> Inl e | Inr n \<Rightarrow> Inr (num_less n (Fin c)))"

definition js_gt :: "jsval \<Rightarrow> rat \<Rightarrow> error + bool" where
  \<comment> \<open>\<^verbatim>\<open>x > c\<close> for a numeric literal \<open>c\<close>\<close>
  "js_gt x c = (case ToNumber x of Inl e \<Rightarrow> Inl e | Inr n \<Rightarrow> Inr (num_less (Fin c) n))"

subsection \<open>Property access, destructuring, printing an integer\<close>

definition get_prop :: "jsval \<Rightarrow> string \<Rightarrow> jsval" where
  \<comment> \<open>\<^verbatim>\<open>o.k\<close> for the property names the handlers use, none of which is inherited\<close>
  "get_prop v k = (case v of JObj kvs \<Rightarrow> (case map_of kvs k of None \<Rightarrow> JUndefined | Some x \<Rightarrow> x)
                   | _ \<Rightarrow> JUndefined)"

definition destructure :: "jsval \<Rightarrow> string \<Rightarrow> error + jsval" where
  \<comment> \<open>\<^verbatim>\<open>const { k, ... } = req.body\<close>: throws when the body is \<^verbatim>\<open>undefined\<close> or \<^verbatim>\<open>null\<close>;
      \<open>k\<close> is the first name of the pattern, which the message quotes\<close>
  "destructure v k =
     (case v of
        JUndefined \<Rightarrow>
          Inl (Error (''Cannot destructure property '' @ [CHR 0x27] @ k @ [CHR 0x27]
                      @ '' of '' @ [CHR 0x27] @ ''req.body'' @ [CHR 0x27] @ '' as it is undefined.''))
      | JNull \<Rightarrow>
          Inl (Error (''Cannot destructure property '' @ [CHR 0x27] @ k @ [CHR 0x27]
                      @ '' of '' @ [CHR 0x27] @ ''req.body'' @ [CHR 0x27] @ '' as it is null.''))
      | _ \<Rightarrow> Inr v)"

definition first_of :: "jsval \<Rightarrow> error + jsval" where
  \<comment> \<open>\<^verbatim>\<open>const [x] = rows\<close>: the first element or \<^verbatim>\<open>undefined\<close>; a string yields its first
      character; anything else is not iterable\<close>
  "first_of v =
     (case v of
        JArr [] \<Rightarrow> Inr JUndefined
      | JArr (x # xs) \<Rightarrow> Inr x
      | JStr [] \<Rightarrow> Inr JUndefined
      | JStr (c # cs) \<Rightarrow> Inr (JStr [c])
      | _ \<Rightarrow> Inl (Error ''object is not iterable''))"

fun dec :: "nat \<Rightarrow> string" where
  "dec n = (if n < 10 then [''0123456789'' ! n] else dec (n div 10) @ [''0123456789'' ! (n mod 10)])"

declare dec.simps [simp del]

definition num_of_int :: "int \<Rightarrow> jsval" where
  "num_of_int i = JNum (Fin (of_int i))"

section \<open>The collaborators: relational store, connection pool, object storage\<close>

text \<open>
  The store, the pool and the bucket are external services; \<^verbatim>\<open>app.js\<close> holds only the
  statements it sends and the configuration it passes. The model keeps the three tables
  as lists of rows in the store's scan order and gives each of the seven statement texts
  of the source its SQL meaning. What the deployment decides is a parameter (\<open>env\<close>):
  the bucket name (\<^verbatim>\<open>process.env.BUCKET_NAME\<close>), the two clocks, whether acquiring a
  connection, executing a statement or writing an object fails and with which message,
  how the store compares the \<open>id\<close> column with a bound parameter, and the entity tag
  that Express computes for a body (a hash of its bytes). A column keeps the bound
  parameter as it was given; a time stamp is a number.
\<close>

datatype sql =
    InsertHistory        \<comment> \<open>\<^verbatim>\<open>INSERT INTO history (title, message) VALUES (?, ?)\<close>\<close>
  | SelectHistory        \<comment> \<open>\<^verbatim>\<open>SELECT * FROM history ORDER BY created_at DESC\<close>\<close>
  | SelectHistoryById    \<comment> \<open>\<^verbatim>\<open>SELECT * FROM history WHERE id = ?\<close>\<close>
  | SelectProfile        \<comment> \<open>\<^verbatim>\<open>SELECT * FROM profile LIMIT 1\<close>\<close>
  | UpdateProfilePicture \<comment> \<open>\<^verbatim>\<open>UPDATE profile SET name = ?, profile_picture_url = ? WHERE id = 1\<close>\<close>
  | UpdateProfileName    \<comment> \<open>\<^verbatim>\<open>UPDATE profile SET name = ? WHERE id = 1\<close>\<close>
  | InsertFeedback       \<comment> \<open>\<^verbatim>\<open>INSERT INTO feedback (comment, rating) VALUES (?, ?)\<close>\<close>

record history_row =
  history_id :: int
  title :: jsval
  history_message :: jsval
  created_at :: nat

record profile_row =
  profile_id :: int
  name :: jsval
  profile_picture_url :: jsval

record feedback_row =
  feedback_id :: int
  comment :: jsval
  rating :: jsval

type_synonym byte = "8 word"

record multer_file =
  fieldname :: string
  originalname :: string
  mimetype :: string
  buffer :: "byte list"

datatype event =
    Acquire                      \<comment> \<open>\<^verbatim>\<open>pool.getConnection()\<close> delivered a connection\<close>
  | Execute sql "jsval list"     \<comment> \<open>\<^verbatim>\<open>connection.execute(sql, params)\<close> was called\<close>
  | Release                      \<comment> \<open>\<^verbatim>\<open>connection.release()\<close> was called\<close>
  | Write string                 \<comment> \<open>a write stream to the object of this name was opened\<close>

record env =
  bucket_name :: string
  now :: nat
  db_now :: nat
  pool_fault :: "string option"
  db_fault :: "sql \<Rightarrow> jsval list \<Rightarrow> string option"
  storage_fault :: "string \<Rightarrow> string option"
  id_matches :: "int \<Rightarrow> jsval \<Rightarrow> bool"
  etag_of :: "jsval \<Rightarrow> string"

record world =
  history :: "history_row list"
  profile :: "profile_row list"
  feedback :: "feedback_row list"
  objects :: "(string \<times> string \<times> byte list) list"
  in_use :: nat
  trace :: "event list"

definition emit :: "event \<Rightarrow> world \<Rightarrow> world" where
  "emit ev w = w\<lparr>trace := trace w @ [ev]\<rparr>"

subsection \<open>The statements\<close>

definition history_json :: "history_row \<Rightarrow> jsval" where
  "history_json r =
     JObj [(''id'', num_of_int (history_id r)), (''title'', title r),
           (''message'', history_message r), (''created_at'', num_of_int (int (created_at r)))]"

definition profile_json :: "profile_row \<Rightarrow> jsval" where
  "profile_json r =
     JObj [(''id'', num_of_int (profile_id r)), (''name'', name r),
           (''profile_picture_url'', profile_picture_url r)]"

definition result_header :: "int \<Rightarrow> nat \<Rightarrow> jsval" where
  "result_header insert_id affected =
     JObj [(''insertId'', num_of_int insert_id), (''affectedRows'', num_of_int (int affected))]"

definition next_id :: "int list \<Rightarrow> int" where
  \<comment> \<open>the generated key: one past the largest key in use, the first being 1\<close>
  "next_id ids = 1 + fold max ids 0"

definition newest_first :: "history_row list \<Rightarrow> history_row list" where
  "newest_first rows = rev (sort_key created_at rows)"

definition bad_arguments :: error where
  "bad_arguments = Error ''Incorrect arguments to mysqld_stmt_execute''"

fun run :: "env \<Rightarrow> sql \<Rightarrow> jsval list \<Rightarrow> world \<Rightarrow> (error + jsval) \<times> world" where
  "run env InsertHistory [t, m] w =
     (let i = next_id (map history_id (history w))
      in (Inr (result_header i 1),
          w\<lparr>history := history w
               @ [\<lparr>history_id = i, title = t, history_message = m, created_at = db_now env\<rparr>]\<rparr>))"
| "run env SelectHistory [] w = (Inr (JArr (map history_json (newest_first (history w)))), w)"
| "run env SelectHistoryById [i] w =
     (Inr (JArr (map history_json (filter (\<lambda>r. id_matches env (history_id r) i) (history w)))), w)"
| "run env SelectProfile [] w = (Inr (JArr (map profile_json (take 1 (profile w)))), w)"
| "run env UpdateProfilePicture [n, u] w =
     (Inr (result_header 0 (length (filter (\<lambda>r. profile_id r = 1) (profile w)))),
      w\<lparr>profile := map (\<lambda>r. if profile_id r = 1 then r\<lparr>name := n, profile_picture_url := u\<rparr> else r)
                       (profile w)\<rparr>)"
| "run env UpdateProfileName [n] w =
     (Inr (result_header 0 (length (filter (\<lambda>r. profile_id r = 1) (profile w)))),
      w\<lparr>profile := map (\<lambda>r. if profile_id r = 1 then r\<lparr>name := n\<rparr> else r) (profile w)\<rparr>)"
| "run env InsertFeedback [c, r] w =
     (let i = next_id (map feedback_id (feedback w))
      in (Inr (result_header i 1),
          w\<lparr>feedback := feedback w @ [\<lparr>feedback_id = i, comment = c, rating = r\<rparr>]\<rparr>))"
| "run env s ps w = (Inl bad_arguments, w)"

definition execute :: "env \<Rightarrow> sql \<Rightarrow> jsval list \<Rightarrow> world \<Rightarrow> (error + jsval) \<times> world" where
  \<comment> \<open>\<^verbatim>\<open>connection.execute(sql, params)\<close>: the store refuses the statement or runs it\<close>
  "execute env s ps w =
     (case db_fault env s ps of
        Some m \<Rightarrow> (Inl (Error m), emit (Execute s ps) w)
      | None \<Rightarrow> run env s ps (emit (Execute s ps) w))"

subsection \<open>The pool\<close>

definition getConnection :: "env \<Rightarrow> world \<Rightarrow> error + world" where
  "getConnection env w =
     (case pool_fault env of
        Some m \<Rightarrow> Inl (Error m)
      | None \<Rightarrow> Inr (emit Acquire (w\<lparr>in_use := in_use w + 1\<rparr>)))"

definition release :: "world \<Rightarrow> world" where
  "release w = emit Release (w\<lparr>in_use := in_use w - 1\<rparr>)"

section \<open>The two helpers of app.js\<close>

text \<open>
  \<^verbatim>\<open>query(sql, params)\<close>: acquire a connection, execute inside \<^verbatim>\<open>try\<close>, release in
  \<^verbatim>\<open>finally\<close>. When \<^verbatim>\<open>getConnection\<close> itself rejects, nothing was acquired and the
  \<^verbatim>\<open>try\<close> is never entered. Waiting for a free connection is not visible here: the
  pool either delivers a connection or fails.
\<close>

definition query :: "env \<Rightarrow> sql \<Rightarrow> jsval list \<Rightarrow> world \<Rightarrow> (error + jsval) \<times> world" where
  "query env s ps w =
     (case getConnection env w of
        Inl e \<Rightarrow> (Inl e, w)
      | Inr w1 \<Rightarrow> (case execute env s ps w1 of (results, w2) \<Rightarrow> (results, release w2)))"

text \<open>
  \<^verbatim>\<open>uploadFile(file)\<close>: the object is named from the clock and the client's file name,
  written in one piece with the file's content type, and the promise resolves with the
  public address or rejects with the stream's error. \<^verbatim>\<open>Date.now()\<close> is a count of
  milliseconds, printed in plain decimal by the template literal.
\<close>

definition blob_name :: "env \<Rightarrow> multer_file \<Rightarrow> string" where
  "blob_name env f = ''profiles/'' @ dec (now env) @ ''-'' @ originalname f"

definition publicUrl :: "env \<Rightarrow> string \<Rightarrow> string" where
  "publicUrl env blob = ''https://storage.googleapis.com/'' @ bucket_name env @ ''/'' @ blob"

definition put_object :: "string \<Rightarrow> string \<times> byte list \<Rightarrow> world \<Rightarrow> world" where
  "put_object k v w = w\<lparr>objects := (k, v) # filter (\<lambda>kv. fst kv \<noteq> k) (objects w)\<rparr>"

definition uploadFile :: "env \<Rightarrow> multer_file \<Rightarrow> world \<Rightarrow> (error + string) \<times> world" where
  "uploadFile env f w =
     (let blob = blob_name env f; w1 = emit (Write blob) w
      in case storage_fault env blob of
           Some m \<Rightarrow> (Inl (Error m), w1)
         | None \<Rightarrow> (Inr (publicUrl env blob), put_object blob (mimetype f, buffer f) w1))"

section \<open>Requests, responses and the multipart middleware\<close>

record request =
  params_id :: string                \<comment> \<open>\<^verbatim>\<open>req.params.id\<close>\<close>
  body :: jsval                      \<comment> \<open>\<^verbatim>\<open>req.body\<close> as the body parsers left it\<close>
  files :: "multer_file list"        \<comment> \<open>the file parts of a multipart body, in order\<close>
  parse_error :: "string option"     \<comment> \<open>set when a body parser refused the request\<close>
  headers :: "(string \<times> string) list" \<comment> \<open>\<^verbatim>\<open>req.headers\<close>: lower-case names, each once\<close>

text \<open>
  An answer is a status and a body. The handlers always give a body to \<^verbatim>\<open>res.json\<close>;
  Express sends none when it answers 304.
\<close>

record response =
  status :: nat
  json :: "jsval option"

definition failure :: "nat \<Rightarrow> string \<Rightarrow> response" where
  \<comment> \<open>\<^verbatim>\<open>res.status(c).json({ success: false, message: m })\<close>\<close>
  "failure c m =
     \<lparr>status = c, json = Some (JObj [(''success'', JBool False), (''message'', JStr m)])\<rparr>"

definition success :: "nat \<Rightarrow> jsval \<Rightarrow> response" where
  \<comment> \<open>\<^verbatim>\<open>res.status(c).json({ success: true, data: d })\<close>; \<^verbatim>\<open>res.json\<close> alone answers 200\<close>
  "success c d = \<lparr>status = c, json = Some (JObj [(''success'', JBool True), (''data'', d)])\<rparr>"

text \<open>
  The multer configuration: memory storage, the \<^verbatim>\<open>fileFilter\<close> of the source and the
  size limit. \<^verbatim>\<open>upload.single(field)\<close> lets one file through under the given field name
  and hands every refusal to Express as an error. A part is a file to multer only when
  it names a file, so only such parts are listed in a request.
\<close>

definition allowedMimes :: "string list" where
  "allowedMimes = [''image/jpeg'', ''image/png'', ''image/jpg'']"

definition fileFilter :: "multer_file \<Rightarrow> error + bool" where
  "fileFilter f =
     (if mimetype f \<in> set allowedMimes then Inr True
      else Inl (Error ''File harus berupa gambar.''))"

definition fileSize :: nat where
  "fileSize = 5 * 1024 * 1024"

fun accept_files :: "string \<Rightarrow> multer_file list \<Rightarrow> multer_file option \<Rightarrow> error + multer_file option" where
  "accept_files field [] acc = Inr acc"
| "accept_files field (f # fs) acc =
     (if fieldname f \<noteq> field \<or> acc \<noteq> None then Inl (Error ''Unexpected field'')
      else (case fileFilter f of
              Inl e \<Rightarrow> Inl e
            | Inr ok \<Rightarrow>
                if fileSize < length (buffer f) then Inl (Error ''File too large'')
                else accept_files field fs (Some f)))"

definition upload_single :: "string \<Rightarrow> request \<Rightarrow> error + multer_file option" where
  \<comment> \<open>the value of \<^verbatim>\<open>req.file\<close>, or the error passed to \<^verbatim>\<open>next\<close>\<close>
  "upload_single field req = accept_files field (files req) None"

section \<open>The six handlers\<close>

text \<open>
  Each handler is a \<^verbatim>\<open>try\<close> block that answers or throws, and a \<^verbatim>\<open>catch\<close> that answers
  500 with the message of what was thrown. The \<open>_try\<close> function is the block; effects
  made before a throw stay made.
\<close>

type_synonym attempt = "(error + response) \<times> world"

definition catch :: "attempt \<Rightarrow> response \<times> world" where
  "catch a = (case a of (Inl e, w) \<Rightarrow> (failure 500 (message e), w) | (Inr res, w) \<Rightarrow> (res, w))"

definition post_history_try :: "env \<Rightarrow> request \<Rightarrow> world \<Rightarrow> attempt" where
  "post_history_try env req w =
     (case destructure (body req) ''title'' of
        Inl e \<Rightarrow> (Inl e, w)
      | Inr b \<Rightarrow>
          (let t = get_prop b ''title''; m = get_prop b ''message''
           in if \<not> truthy t \<or> \<not> truthy m
              then (Inr (failure 400 ''Judul dan pesan harus diisi''), w)
              else (case query env InsertHistory [t, m] w of
                      (Inl e, w1) \<Rightarrow> (Inl e, w1)
                    | (Inr result, w1) \<Rightarrow>
                        (Inr (success 201 (JObj [(''id'', get_prop result ''insertId''),
                                                 (''title'', t), (''message'', m)])), w1))))"

definition get_history_try :: "env \<Rightarrow> request \<Rightarrow> world \<Rightarrow> attempt" where
  "get_history_try env req w =
     (case query env SelectHistory [] w of
        (Inl e, w1) \<Rightarrow> (Inl e, w1)
      | (Inr histories, w1) \<Rightarrow> (Inr (success 200 histories), w1))"

definition get_history_by_id_try :: "env \<Rightarrow> request \<Rightarrow> world \<Rightarrow> attempt" where
  "get_history_by_id_try env req w =
     (case query env SelectHistoryById [JStr (params_id req)] w of
        (Inl e, w1) \<Rightarrow> (Inl e, w1)
      | (Inr rows, w1) \<Rightarrow>
          (case first_of rows of
             Inl e \<Rightarrow> (Inl e, w1)
           | Inr h \<Rightarrow>
               if \<not> truthy h then (Inr (failure 404 ''Tidak memiliki akses''), w1)
               else (Inr (success 200 h), w1)))"

definition get_profile_try :: "env \<Rightarrow> request \<Rightarrow> world \<Rightarrow> attempt" where
  "get_profile_try env req w =
     (case query env SelectProfile [] w of
        (Inl e, w1) \<Rightarrow> (Inl e, w1)
      | (Inr rows, w1) \<Rightarrow>
          (case first_of rows of
             Inl e \<Rightarrow> (Inl e, w1)
           | Inr p \<Rightarrow>
               if \<not> truthy p then (Inr (failure 404 ''Profil tidak ditemukan''), w1)
               else (Inr (success 200 p), w1)))"

definition upload_if_present :: "env \<Rightarrow> multer_file option \<Rightarrow> world \<Rightarrow> (error + jsval) \<times> world" where
  \<comment> \<open>\<^verbatim>\<open>let profilePictureUrl = null; if (req.file) profilePictureUrl = await uploadFile(req.file)\<close>\<close>
  "upload_if_present env file w =
     (case file of
        None \<Rightarrow> (Inr JNull, w)
      | Some f \<Rightarrow>
          (case uploadFile env f w of
             (Inl e, w1) \<Rightarrow> (Inl e, w1)
           | (Inr url, w1) \<Rightarrow> (Inr (JStr url), w1)))"

definition put_profile_try :: "env \<Rightarrow> request \<Rightarrow> multer_file option \<Rightarrow> world \<Rightarrow> attempt" where
  "put_profile_try env req file w =
     (case destructure (body req) ''name'' of
        Inl e \<Rightarrow> (Inl e, w)
      | Inr b \<Rightarrow>
          (let n = get_prop b ''name''
           in if \<not> truthy n then (Inr (failure 400 ''Name is required''), w)
              else (case upload_if_present env file w of
                      (Inl e, w1) \<Rightarrow> (Inl e, w1)
                    | (Inr profilePictureUrl, w1) \<Rightarrow>
                        (let updateQuery = (if truthy profilePictureUrl
                                            then UpdateProfilePicture else UpdateProfileName);
                             params = (if truthy profilePictureUrl
                                       then [n, profilePictureUrl] else [n])
                         in case query env updateQuery params w1 of
                              (Inl e, w2) \<Rightarrow> (Inl e, w2)
                            | (Inr result, w2) \<Rightarrow>
                                (Inr (success 200
                                        (JObj [(''name'', n),
                                               (''profile_picture_url'', profilePictureUrl)])),
                                 w2)))))"

definition post_feedback_try :: "env \<Rightarrow> request \<Rightarrow> world \<Rightarrow> attempt" where
  "post_feedback_try env req w =
     (case destructure (body req) ''comment'' of
        Inl e \<Rightarrow> (Inl e, w)
      | Inr b \<Rightarrow>
          (let c = get_prop b ''comment''; r = get_prop b ''rating''
           in if \<not> truthy c \<or> \<not> truthy r
              then (Inr (failure 400 ''Komentar dan rating harus diisi''), w)
              else (case js_lt r 1 of
                      Inl e \<Rightarrow> (Inl e, w)
                    | Inr too_low \<Rightarrow>
                        if too_low then (Inr (failure 400 ''Rating harus antara 1-4''), w)
                        else (case js_gt r 4 of
                                Inl e \<Rightarrow> (Inl e, w)
                              | Inr too_high \<Rightarrow>
                                  if too_high then (Inr (failure 400 ''Rating harus antara 1-4''), w)
                                  else (case query env InsertFeedback [c, r] w of
                                          (Inl e, w1) \<Rightarrow> (Inl e, w1)
                                        | (Inr result, w1) \<Rightarrow>
                                            (Inr (success 201
                                                    (JObj [(''id'', get_prop result ''insertId''),
                                                           (''comment'', c), (''rating'', r)])),
                                             w1))))))"

section \<open>The application: body parsers, routes, error middleware\<close>

datatype endpoint =
    PostHistory       \<comment> \<open>\<^verbatim>\<open>POST /api/history\<close>\<close>
  | GetHistory        \<comment> \<open>\<^verbatim>\<open>GET /api/history\<close>\<close>
  | GetHistoryById    \<comment> \<open>\<^verbatim>\<open>GET /api/history/:id\<close>\<close>
  | GetProfile        \<comment> \<open>\<^verbatim>\<open>GET /api/profile\<close>\<close>
  | PutProfile        \<comment> \<open>\<^verbatim>\<open>PUT /api/profile\<close>\<close>
  | PostFeedback      \<comment> \<open>\<^verbatim>\<open>POST /api/feedback\<close>\<close>

definition error_middleware :: "error \<Rightarrow> response" where
  \<comment> \<open>\<^verbatim>\<open>app.use((err, req, res, next) => res.status(500).json(...))\<close>\<close>
  "error_middleware err = failure 500 (message err)"

definition put_profile :: "env \<Rightarrow> request \<Rightarrow> world \<Rightarrow> response \<times> world" where
  \<comment> \<open>\<^verbatim>\<open>app.put("/api/profile", upload.single("profile_picture"), handler)\<close>\<close>
  "put_profile env req w =
     (case upload_single ''profile_picture'' req of
        Inl e \<Rightarrow> (error_middleware e, w)
      | Inr file \<Rightarrow> catch (put_profile_try env req file w))"

definition route :: "env \<Rightarrow> endpoint \<Rightarrow> request \<Rightarrow> world \<Rightarrow> response \<times> world" where
  "route env ep req w =
     (case ep of
        PostHistory \<Rightarrow> catch (post_history_try env req w)
      | GetHistory \<Rightarrow> catch (get_history_try env req w)
      | GetHistoryById \<Rightarrow> catch (get_history_by_id_try env req w)
      | GetProfile \<Rightarrow> catch (get_profile_try env req w)
      | PutProfile \<Rightarrow> put_profile env req w
      | PostFeedback \<Rightarrow> catch (post_feedback_try env req w))"

definition handle :: "env \<Rightarrow> endpoint \<Rightarrow> request \<Rightarrow> world \<Rightarrow> response \<times> world" where
  \<comment> \<open>the call of \<^verbatim>\<open>res.status(c).json(v)\<close> that a request ends in\<close>
  "handle env ep req w =
     (case parse_error req of
        Some m \<Rightarrow> (error_middleware (Error m), w)
      | None \<Rightarrow> route env ep req w)"

subsection \<open>What \<^verbatim>\<open>res.json\<close> sends\<close>

text \<open>
  \<^verbatim>\<open>const app = express()\<close> keeps Express's default settings, so every \<^verbatim>\<open>res.json\<close>
  ends in \<^verbatim>\<open>res.send\<close>, which tags the body with an \<^verbatim>\<open>ETag\<close> and then asks \<^verbatim>\<open>req.fresh\<close>:
  for a \<^verbatim>\<open>GET\<close> or \<^verbatim>\<open>HEAD\<close> request and a status from 200 to 299 (or 304), the
  request's validators are compared with the tag, and when the client's copy is fresh
  the status becomes 304 and the body is dropped. The comparison is that of the
  package \<^verbatim>\<open>fresh\<close> as Express 4 uses it: a request without validators is never fresh,
  nor is one that says \<^verbatim>\<open>Cache-Control: no-cache\<close>; \<^verbatim>\<open>If-None-Match\<close> must be \<^verbatim>\<open>*\<close> or
  list the tag (weakly compared); \<^verbatim>\<open>If-Modified-Since\<close> needs a \<^verbatim>\<open>Last-Modified\<close> on the
  answer, which this application never sets. The six endpoints are the routes with
  their own methods.
\<close>

definition method_of :: "endpoint \<Rightarrow> string" where
  "method_of ep =
     (case ep of
        PostHistory \<Rightarrow> ''POST''
      | GetHistory \<Rightarrow> ''GET''
      | GetHistoryById \<Rightarrow> ''GET''
      | GetProfile \<Rightarrow> ''GET''
      | PutProfile \<Rightarrow> ''PUT''
      | PostFeedback \<Rightarrow> ''POST'')"

definition given :: "string option \<Rightarrow> bool" where
  \<comment> \<open>a header value that is truthy: present and not empty\<close>
  "given h = (case h of None \<Rightarrow> False | Some v \<Rightarrow> v \<noteq> [])"

fun pieces :: "string \<Rightarrow> string \<Rightarrow> string list" where
  "pieces cur [] = [rev cur]"
| "pieces cur (c # cs) = (if c = CHR '','' then rev cur # pieces [] cs else pieces (c # cur) cs)"

definition split_commas :: "string \<Rightarrow> string list" where
  "split_commas s = pieces [] s"

definition strip_spaces :: "string \<Rightarrow> string" where
  "strip_spaces s = dropWhile (\<lambda>c. c = CHR '' '') (rev (dropWhile (\<lambda>c. c = CHR '' '') (rev s)))"

definition parseTokenList :: "string \<Rightarrow> string list" where
  \<comment> \<open>the comma-separated tokens, without the spaces around them\<close>
  "parseTokenList s = map strip_spaces (split_commas s)"

definition no_cache :: "string \<Rightarrow> bool" where
  \<comment> \<open>the directive \<^verbatim>\<open>no-cache\<close>, with white space around it at most, between commas or the ends\<close>
  "no_cache s = list_ex (\<lambda>p. trim p = ''no-cache'') (split_commas s)"

definition etag_matches :: "string \<Rightarrow> string \<Rightarrow> bool" where
  "etag_matches noneMatch etag =
     list_ex (\<lambda>m. m = etag \<or> m = ''W/'' @ etag \<or> ''W/'' @ m = etag) (parseTokenList noneMatch)"

definition fresh :: "(string \<times> string) list \<Rightarrow> string \<Rightarrow> bool" where
  "fresh reqHeaders etag =
     (let modifiedSince = map_of reqHeaders ''if-modified-since'';
          noneMatch = map_of reqHeaders ''if-none-match'';
          cacheControl = map_of reqHeaders ''cache-control''
      in if \<not> given modifiedSince \<and> \<not> given noneMatch then False
         else if (case cacheControl of None \<Rightarrow> False | Some c \<Rightarrow> c \<noteq> [] \<and> no_cache c) then False
         else if (case noneMatch of
                    None \<Rightarrow> False
                  | Some v \<Rightarrow> v \<noteq> [] \<and> v \<noteq> ''*'' \<and> (etag = [] \<or> \<not> etag_matches v etag))
              then False
         else if given modifiedSince then False
         else True)"

definition req_fresh :: "env \<Rightarrow> endpoint \<Rightarrow> request \<Rightarrow> response \<Rightarrow> bool" where
  "req_fresh env ep req res =
     ((method_of ep = ''GET'' \<or> method_of ep = ''HEAD'')
      \<and> ((200 \<le> status res \<and> status res < 300) \<or> status res = 304)
      \<and> fresh (headers req) (case json res of None \<Rightarrow> [] | Some v \<Rightarrow> etag_of env v))"

definition not_modified :: response where
  "not_modified = \<lparr>status = 304, json = None\<rparr>"

definition send :: "env \<Rightarrow> endpoint \<Rightarrow> request \<Rightarrow> response \<Rightarrow> response" where
  "send env ep req res = (if req_fresh env ep req res then not_modified else res)"

definition app :: "env \<Rightarrow> endpoint \<Rightarrow> request \<Rightarrow> world \<Rightarrow> response \<times> world" where
  "app env ep req w = (case handle env ep req w of (res, w1) \<Rightarrow> (send env ep req res, w1))"

section \<open>A sample deployment\<close>

text \<open>
  Concrete values for the parameters, used where a property is evaluated on an input: a
  deployment in which nothing fails, one whose store refuses every statement, one whose
  bucket refuses every write; a store seeded with two history rows and the profile row,
  and the same store with a second profile row in front; a few requests. The entity tag
  of the sample deployment is one fixed tag.
\<close>

definition quiet_env :: env where
  "quiet_env =
     \<lparr>bucket_name = ''handlips'', now = 1700000000000, db_now = 1700000000,
      pool_fault = None, db_fault = (\<lambda>s ps. None), storage_fault = (\<lambda>k. None),
      id_matches = (\<lambda>i v. v = JStr (dec (nat i))),
      etag_of = (\<lambda>v. ''W/'' @ [CHR 0x22] @ ''2a-tag'' @ [CHR 0x22])\<rparr>"

definition refusing_env :: env where
  "refusing_env = quiet_env\<lparr>db_fault := (\<lambda>s ps. Some ''ER_LOCK_DEADLOCK'')\<rparr>"

definition storage_down_env :: env where
  "storage_down_env = quiet_env\<lparr>storage_fault := (\<lambda>k. Some ''socket hang up'')\<rparr>"

definition stored_url :: string where
  "stored_url = ''https://storage.googleapis.com/handlips/profiles/1690000000000-old.png''"

definition owner_row :: profile_row where
  "owner_row = \<lparr>profile_id = 1, name = JStr ''Budi'', profile_picture_url = JStr stored_url\<rparr>"


definition seeded :: world where
  "seeded =
     \<lparr>history = [\<lparr>history_id = 1, title = JStr ''A'', history_message = JStr ''halo'', created_at = 10\<rparr>,
                 \<lparr>history_id = 2, title = JStr ''B'', history_message = JStr ''apa'', created_at = 20\<rparr>],
      profile = [owner_row], feedback = [], objects = [], in_use = 0, trace = []\<rparr>"


definition photo :: multer_file where
  "photo = \<lparr>fieldname = ''profile_picture'', originalname = ''me.png'', mimetype = ''image/png'',
            buffer = [137, 80, 78, 71]\<rparr>"

definition pdf :: multer_file where
  "pdf = \<lparr>fieldname = ''profile_picture'', originalname = ''cv.pdf'', mimetype = ''application/pdf'',
          buffer = [37, 80, 68, 70]\<rparr>"

definition plain_request :: request where
  "plain_request =
     \<lparr>params_id = [], body = JObj [], files = [], parse_error = None, headers = []\<rparr>"

definition revalidating_request :: request where
  \<comment> \<open>a request with the header \<^verbatim>\<open>If-None-Match: *\<close>\<close>
  "revalidating_request = plain_request\<lparr>headers := [(''if-none-match'', ''*'')]\<rparr>"

definition history_request :: "string \<Rightarrow> request" where
  \<comment> \<open>\<^verbatim>\<open>GET /api/history/i\<close>\<close>
  "history_request i = plain_request\<lparr>params_id := i\<rparr>"

definition profile_request :: "jsval \<Rightarrow> multer_file list \<Rightarrow> request" where
  \<comment> \<open>a multipart body with the text field \<^verbatim>\<open>name\<close> and the given file parts\<close>
  "profile_request n fs = plain_request\<lparr>body := JObj [(''name'', n)], files := fs\<rparr>"

definition feedback_request :: "jsval \<Rightarrow> jsval \<Rightarrow> request" where
  \<comment> \<open>the JSON body \<^verbatim>\<open>{"comment": c, "rating": r}\<close>\<close>
  "feedback_request c r = plain_request\<lparr>body := JObj [(''comment'', c), (''rating'', r)]\<rparr>"

section \<open>Notions the properties are stated with\<close>

definition success_field :: "response \<Rightarrow> bool option" where
  \<comment> \<open>the boolean under \<^verbatim>\<open>success\<close> in the body, when the body is an object that has one\<close>
  "success_field res =
     (case json res of
        Some (JObj kvs) \<Rightarrow> (case map_of kvs ''success'' of Some (JBool b) \<Rightarrow> Some b | _ \<Rightarrow> None)
      | _ \<Rightarrow> None)"

definition enveloped :: "response \<Rightarrow> bool" where
  "enveloped res =
     (success_field res = Some (status res = 200 \<or> status res = 201)
      \<and> status res \<in> {200, 201, 400, 404, 500})"

definition answers :: "attempt \<Rightarrow> bool" where
  \<comment> \<open>a \<^verbatim>\<open>try\<close> block either throws or answers with an envelope\<close>
  "answers a = (case fst a of Inl e \<Rightarrow> True | Inr res \<Rightarrow> enveloped res)"


section \<open>The store and the query helper\<close>

lemma run_in_use: "in_use (snd (run env s ps w)) = in_use w"
  by (cases "(env, s, ps, w)" rule: run.cases) (simp_all add: Let_def)

lemma run_trace: "trace (snd (run env s ps w)) = trace w"
  by (cases "(env, s, ps, w)" rule: run.cases) (simp_all add: Let_def)

lemma execute_in_use: "in_use (snd (execute env s ps w)) = in_use w"
  by (simp add: execute_def emit_def run_in_use split: option.splits)

lemma execute_trace: "trace (snd (execute env s ps w)) = trace w @ [Execute s ps]"
  by (simp add: execute_def emit_def run_trace split: option.splits)

text \<open>The three ways a call of \<open>query\<close> can go.\<close>

lemma query_pool_fault: "pool_fault env = Some m \<Longrightarrow> query env s ps w = (Inl (Error m), w)"
  by (simp add: query_def getConnection_def)

lemma query_db_fault:
  "pool_fault env = None \<Longrightarrow> db_fault env s ps = Some m \<Longrightarrow>
   query env s ps w =
     (Inl (Error m), w\<lparr>in_use := in_use w, trace := trace w @ [Acquire, Execute s ps, Release]\<rparr>)"
  by (simp add: query_def getConnection_def execute_def release_def emit_def)

lemma query_runs:
  "pool_fault env = None \<Longrightarrow> db_fault env s ps = None \<Longrightarrow>
   query env s ps w =
     (fst (run env s ps (w\<lparr>in_use := in_use w + 1, trace := trace w @ [Acquire, Execute s ps]\<rparr>)),
      release (snd (run env s ps (w\<lparr>in_use := in_use w + 1, trace := trace w @ [Acquire, Execute s ps]\<rparr>))))"
  by (simp add: query_def getConnection_def execute_def emit_def split: prod.splits)

lemma query_cases:
  obtains m where "pool_fault env = Some m" "query env s ps w = (Inl (Error m), w)"
  | m where "pool_fault env = None" "db_fault env s ps = Some m"
      "query env s ps w =
         (Inl (Error m), w\<lparr>in_use := in_use w, trace := trace w @ [Acquire, Execute s ps, Release]\<rparr>)"
  | "pool_fault env = None" "db_fault env s ps = None"
      "query env s ps w =
        (fst (run env s ps (w\<lparr>in_use := in_use w + 1, trace := trace w @ [Acquire, Execute s ps]\<rparr>)),
         release (snd (run env s ps (w\<lparr>in_use := in_use w + 1, trace := trace w @ [Acquire, Execute s ps]\<rparr>))))"
  using query_pool_fault [of env _ s ps w] query_db_fault [of env s ps _ w] query_runs [of env s ps w]
  by (cases "pool_fault env"; cases "db_fault env s ps") auto

text \<open>
  C5. Whenever the pool has delivered a connection, \<open>query\<close> hands back exactly what
  \<open>execute\<close> produced, be it the result set or the error thrown, and the connection has
  been released once: the pool's count of connections in use is what it was before the
  call, and the call added one acquisition, the statement and one release to the trace.
\<close>

theorem query_releases_connection:
  assumes "getConnection env w = Inr w1" and "execute env s ps w1 = (r, w2)"
  shows "query env s ps w = (r, release w2) \<and> in_use (release w2) = in_use w
         \<and> trace (release w2) = trace w @ [Acquire, Execute s ps, Release]"
proof -
  from assms(1) have w1: "w1 = emit Acquire (w\<lparr>in_use := in_use w + 1\<rparr>)"
    by (simp add: getConnection_def split: option.splits)
  from assms(2) have "in_use w2 = in_use w1" and "trace w2 = trace w1 @ [Execute s ps]"
    using execute_in_use [of env s ps w1] execute_trace [of env s ps w1] by simp_all
  with w1 assms show ?thesis
    by (simp add: query_def release_def emit_def)
qed

theorem query_releases_connection_witness:
  "getConnection refusing_env seeded = Inr (seeded\<lparr>in_use := 1, trace := [Acquire]\<rparr>)
   \<and> execute refusing_env SelectProfile [] (seeded\<lparr>in_use := 1, trace := [Acquire]\<rparr>) =
       (Inl (Error ''ER_LOCK_DEADLOCK''),
        seeded\<lparr>in_use := 1, trace := [Acquire, Execute SelectProfile []]\<rparr>)
   \<and> query refusing_env SelectProfile [] seeded =
       (Inl (Error ''ER_LOCK_DEADLOCK''),
        seeded\<lparr>in_use := 0, trace := [Acquire, Execute SelectProfile [], Release]\<rparr>)"
proof -
  have a: "getConnection refusing_env seeded = Inr (seeded\<lparr>in_use := 1, trace := [Acquire]\<rparr>)"
    by (simp add: getConnection_def refusing_env_def quiet_env_def seeded_def emit_def)
  have b: "execute refusing_env SelectProfile [] (seeded\<lparr>in_use := 1, trace := [Acquire]\<rparr>) =
       (Inl (Error ''ER_LOCK_DEADLOCK''),
        seeded\<lparr>in_use := 1, trace := [Acquire, Execute SelectProfile []]\<rparr>)"
    by (simp add: execute_def refusing_env_def quiet_env_def seeded_def emit_def)
  from query_releases_connection [OF a b] a b show ?thesis
    by (simp add: release_def emit_def seeded_def)
qed

section \<open>The upload helper\<close>

lemma dec_now: "dec 1700000000000 = ''1700000000000''"
  by (simp add: dec.simps)

text \<open>
  C7. The object written by \<open>uploadFile\<close> is named \<^verbatim>\<open>profiles/\<close>, the clock reading in
  decimal, a hyphen and the client's file name; when the write succeeds the function
  returns \<^verbatim>\<open>https://storage.googleapis.com/\<close>, the bucket name, a slash and that object
  name, and the object under that name holds the file's content type and bytes.
\<close>

theorem uploadFile_key_and_url:
  assumes "storage_fault env (''profiles/'' @ dec (now env) @ ''-'' @ originalname f) = None"
  shows "fst (uploadFile env f w) =
           Inr (''https://storage.googleapis.com/'' @ bucket_name env @ ''/''
                @ ''profiles/'' @ dec (now env) @ ''-'' @ originalname f)
         \<and> map_of (objects (snd (uploadFile env f w)))
              (''profiles/'' @ dec (now env) @ ''-'' @ originalname f) = Some (mimetype f, buffer f)
         \<and> trace (snd (uploadFile env f w)) =
              trace w @ [Write (''profiles/'' @ dec (now env) @ ''-'' @ originalname f)]"
  using assms
  by (simp add: uploadFile_def blob_name_def publicUrl_def put_object_def emit_def Let_def)

theorem uploadFile_key_and_url_witness:
  "storage_fault quiet_env (''profiles/'' @ dec (now quiet_env) @ ''-'' @ originalname photo) = None
   \<and> fst (uploadFile quiet_env photo seeded) =
       Inr ''https://storage.googleapis.com/handlips/profiles/1700000000000-me.png''
   \<and> map_of (objects (snd (uploadFile quiet_env photo seeded))) ''profiles/1700000000000-me.png''
       = Some (''image/png'', [137, 80, 78, 71])"
proof -
  have a: "storage_fault quiet_env (''profiles/'' @ dec (now quiet_env) @ ''-'' @ originalname photo) = None"
    by (simp add: quiet_env_def)
  from uploadFile_key_and_url [OF a, of seeded] a show ?thesis
    by (simp add: quiet_env_def photo_def dec_now)
qed

section \<open>What is sent\<close>

lemma send_unless_fresh: "\<not> req_fresh env ep req res \<Longrightarrow> send env ep req res = res"
  by (simp add: send_def)

lemma fresh_needs_get_and_2xx:
  "req_fresh env ep req res \<Longrightarrow>
   method_of ep = ''GET'' \<and> ((200 \<le> status res \<and> status res < 300) \<or> status res = 304)"
  by (cases ep) (simp_all add: req_fresh_def method_of_def)

lemma app_unless_2xx:
  "\<not> (200 \<le> status (fst (handle env ep req w)) \<and> status (fst (handle env ep req w)) < 300) \<Longrightarrow>
   status (fst (handle env ep req w)) \<noteq> 304 \<Longrightarrow>
   app env ep req w = handle env ep req w"
  by (auto simp: app_def send_def req_fresh_def split: prod.splits)

lemma app_post_history: "app env PostHistory req w = handle env PostHistory req w"
  by (simp add: app_def send_def req_fresh_def method_of_def split: prod.splits)

lemma app_put_profile: "app env PutProfile req w = handle env PutProfile req w"
  by (simp add: app_def send_def req_fresh_def method_of_def split: prod.splits)

lemma app_post_feedback: "app env PostFeedback req w = handle env PostFeedback req w"
  by (simp add: app_def send_def req_fresh_def method_of_def split: prod.splits)

lemma app_world: "snd (app env ep req w) = snd (handle env ep req w)"
  by (simp add: app_def split: prod.splits)

lemma app_answer: "fst (app env ep req w) = send env ep req (fst (handle env ep req w))"
  by (simp add: app_def split: prod.splits)

section \<open>Every answer is an envelope, or 304 without a body\<close>

lemma enveloped_failure: "c \<in> {400, 404, 500} \<Longrightarrow> enveloped (failure c m)"
  by (auto simp: enveloped_def success_field_def failure_def)

lemma enveloped_success: "c \<in> {200, 201} \<Longrightarrow> enveloped (success c d)"
  by (auto simp: enveloped_def success_field_def success_def)

lemma catch_enveloped: "answers a \<Longrightarrow> enveloped (fst (catch a))"
  by (cases a) (auto simp: answers_def catch_def enveloped_failure split: sum.splits)

lemma post_history_answers: "answers (post_history_try env req w)"
  by (auto simp: answers_def post_history_try_def Let_def enveloped_failure enveloped_success
      split: sum.splits prod.splits)

lemma get_history_answers: "answers (get_history_try env req w)"
  by (auto simp: answers_def get_history_try_def enveloped_success split: sum.splits prod.splits)

lemma get_history_by_id_answers: "answers (get_history_by_id_try env req w)"
  by (auto simp: answers_def get_history_by_id_try_def enveloped_failure enveloped_success
      split: sum.splits prod.splits)

lemma get_profile_answers: "answers (get_profile_try env req w)"
  by (auto simp: answers_def get_profile_try_def enveloped_failure enveloped_success
      split: sum.splits prod.splits)

lemma put_profile_answers: "answers (put_profile_try env req fl w)"
  by (auto simp: answers_def put_profile_try_def Let_def enveloped_failure enveloped_success
      split: sum.splits prod.splits)

lemma post_feedback_answers: "answers (post_feedback_try env req w)"
  by (auto simp: answers_def post_feedback_try_def Let_def enveloped_failure enveloped_success
      split: sum.splits prod.splits)

lemma handle_enveloped: "enveloped (fst (handle env ep req w))"
proof (cases "parse_error req")
  case (Some m)
  then show ?thesis by (simp add: handle_def error_middleware_def enveloped_failure)
next
  case None
  show ?thesis
  proof (cases ep)
    case PutProfile
    with None show ?thesis
      by (simp add: handle_def route_def put_profile_def error_middleware_def enveloped_failure
          catch_enveloped put_profile_answers split: sum.splits)
  qed (simp_all add: None handle_def route_def catch_enveloped post_history_answers
        get_history_answers get_history_by_id_answers get_profile_answers post_feedback_answers)
qed

lemma get_history_revalidated:
  "app quiet_env GetHistory revalidating_request seeded =
     (\<lparr>status = 304, json = None\<rparr>,
      seeded\<lparr>trace := [Acquire, Execute SelectHistory [], Release]\<rparr>)"
  by (simp add: app_def send_def req_fresh_def method_of_def fresh_def given_def not_modified_def
      handle_def route_def catch_def get_history_try_def query_def getConnection_def execute_def
      release_def emit_def success_def revalidating_request_def plain_request_def quiet_env_def
      seeded_def Let_def)

text \<open>
  C9, as it stands, fails: a \<^verbatim>\<open>GET /api/history\<close> with the header \<^verbatim>\<open>If-None-Match: *\<close>
  is answered 304 with no body at all, hence without a \<^verbatim>\<open>success\<close> field and with a
  status outside 200, 201, 400, 404 and 500.
\<close>

theorem revalidated_get_has_no_envelope:
  "status (fst (app quiet_env GetHistory revalidating_request seeded)) = 304
   \<and> json (fst (app quiet_env GetHistory revalidating_request seeded)) = None
   \<and> success_field (fst (app quiet_env GetHistory revalidating_request seeded)) = None
   \<and> status (fst (app quiet_env GetHistory revalidating_request seeded)) \<notin> {200, 201, 400, 404, 500}"
  by (simp add: get_history_revalidated success_field_def)

text \<open>
  C9, amended. Whatever the endpoint, the request and the state of the collaborators:
  when Express finds the request fresh against the answer of the handler, which happens
  on the three \<^verbatim>\<open>GET\<close> endpoints only and only when the handler answered 200, the answer
  sent is 304 without a body; in every other case the body sent is an object with a
  boolean \<^verbatim>\<open>success\<close>, the status is one of 200, 201, 400, 404 and 500, and \<^verbatim>\<open>success\<close> is
  true exactly when the status is 200 or 201, hence false exactly when it is 400, 404 or
  500. The answers of the handlers, of their \<^verbatim>\<open>catch\<close> blocks and of the error
  middleware are all covered.
\<close>

theorem every_response_is_an_envelope:
  "(if req_fresh env ep req (fst (handle env ep req w))
    then fst (app env ep req w) = \<lparr>status = 304, json = None\<rparr>
         \<and> method_of ep = ''GET'' \<and> status (fst (handle env ep req w)) = 200
    else success_field (fst (app env ep req w)) =
           Some (status (fst (app env ep req w)) = 200 \<or> status (fst (app env ep req w)) = 201)
         \<and> status (fst (app env ep req w)) \<in> {200, 201, 400, 404, 500})"
proof (cases "req_fresh env ep req (fst (handle env ep req w))")
  case True
  have e: "enveloped (fst (handle env ep req w))"
    by (rule handle_enveloped)
  from True have g: "method_of ep = ''GET''"
    and r: "(200 \<le> status (fst (handle env ep req w)) \<and> status (fst (handle env ep req w)) < 300)
            \<or> status (fst (handle env ep req w)) = 304"
    using fresh_needs_get_and_2xx by blast+
  from g have "ep = GetHistory \<or> ep = GetHistoryById \<or> ep = GetProfile"
    by (cases ep) (simp_all add: method_of_def)
  moreover have "status (fst (handle env ep req w)) \<noteq> 201"
    if "ep = GetHistory \<or> ep = GetHistoryById \<or> ep = GetProfile"
    using that
    by (auto simp: handle_def route_def catch_def get_history_try_def get_history_by_id_try_def
        get_profile_try_def error_middleware_def failure_def success_def
        split: option.splits prod.splits sum.splits if_splits)
  ultimately have "status (fst (handle env ep req w)) = 200"
    using e r by (auto simp: enveloped_def)
  with True g show ?thesis
    by (simp add: app_answer send_def not_modified_def)
next
  case False
  then have "fst (app env ep req w) = fst (handle env ep req w)"
    by (simp add: app_answer send_def)
  with False handle_enveloped [of env ep req w] show ?thesis
    by (simp add: enveloped_def)
qed

theorem every_response_is_an_envelope_witness:
  "req_fresh quiet_env GetHistory revalidating_request
     (fst (handle quiet_env GetHistory revalidating_request seeded))
   \<and> fst (app quiet_env GetHistory revalidating_request seeded) = \<lparr>status = 304, json = None\<rparr>
   \<and> status (fst (handle quiet_env GetHistory revalidating_request seeded)) = 200
   \<and> \<not> req_fresh quiet_env GetHistory plain_request (fst (handle quiet_env GetHistory plain_request seeded))
   \<and> success_field (fst (app quiet_env GetHistory plain_request seeded)) = Some True
   \<and> status (fst (app quiet_env GetHistory plain_request seeded)) = 200"
proof -
  have h: "status (fst (handle quiet_env GetHistory req seeded)) = 200
           \<and> json (fst (handle quiet_env GetHistory req seeded)) \<noteq> None" if "parse_error req = None" for req
    using that
    by (simp add: handle_def route_def catch_def get_history_try_def query_def getConnection_def
        execute_def release_def emit_def success_def quiet_env_def seeded_def Let_def)
  have a: "req_fresh quiet_env GetHistory revalidating_request
             (fst (handle quiet_env GetHistory revalidating_request seeded))"
    using h [of revalidating_request]
    by (auto simp: req_fresh_def method_of_def fresh_def given_def revalidating_request_def
        plain_request_def Let_def)
  have b: "\<not> req_fresh quiet_env GetHistory plain_request
             (fst (handle quiet_env GetHistory plain_request seeded))"
    by (simp add: req_fresh_def fresh_def given_def plain_request_def Let_def)
  have c: "status (fst (app quiet_env GetHistory plain_request seeded)) = 200"
    using h [of plain_request] b by (simp add: app_answer send_def plain_request_def)
  from every_response_is_an_envelope [of quiet_env GetHistory revalidating_request seeded]
       every_response_is_an_envelope [of quiet_env GetHistory plain_request seeded]
       a b c
  show ?thesis
    by simp
qed

section \<open>Reading history by id\<close>

text \<open>
  C8. When the store answers the lookup and no history row matches the id of the path,
  \<^verbatim>\<open>GET /api/history/:id\<close> answers 404 with exactly the body
  \<^verbatim>\<open>{"success": false, "message": "Tidak memiliki akses"}\<close>.
\<close>

theorem history_by_id_absent:
  assumes "parse_error req = None"
    and "pool_fault env = None"
    and "db_fault env SelectHistoryById [JStr (params_id req)] = None"
    and "\<forall>r \<in> set (history w). \<not> id_matches env (history_id r) (JStr (params_id req))"
  shows "fst (app env GetHistoryById req w) =
           \<lparr>status = 404,
            json = Some (JObj [(''success'', JBool False),
                               (''message'', JStr ''Tidak memiliki akses'')])\<rparr>"
proof -
  from assms(4) have "filter (\<lambda>r. id_matches env (history_id r) (JStr (params_id req))) (history w) = []"
    by (simp add: filter_empty_conv)
  with assms(1-3) have "fst (handle env GetHistoryById req w) = failure 404 ''Tidak memiliki akses''"
    by (simp add: handle_def route_def catch_def get_history_by_id_try_def query_runs first_of_def)
  then show ?thesis
    using app_unless_2xx [of env GetHistoryById req w] by (simp add: failure_def)
qed

theorem history_by_id_absent_witness:
  "parse_error (history_request ''999'') = None
   \<and> pool_fault quiet_env = None
   \<and> db_fault quiet_env SelectHistoryById [JStr (params_id (history_request ''999''))] = None
   \<and> list_all (\<lambda>r. \<not> id_matches quiet_env (history_id r) (JStr (params_id (history_request ''999''))))
        (history seeded)
   \<and> fst (app quiet_env GetHistoryById (history_request ''999'') seeded) =
        \<lparr>status = 404,
         json = Some (JObj [(''success'', JBool False),
                            (''message'', JStr ''Tidak memiliki akses'')])\<rparr>"
proof -
  have a: "parse_error (history_request ''999'') = None"
    by (simp add: history_request_def plain_request_def)
  have b: "pool_fault quiet_env = None"
    by (simp add: quiet_env_def)
  have c: "db_fault quiet_env SelectHistoryById [JStr (params_id (history_request ''999''))] = None"
    by (simp add: quiet_env_def)
  have d: "\<forall>r \<in> set (history seeded).
             \<not> id_matches quiet_env (history_id r) (JStr (params_id (history_request ''999'')))"
    by (simp add: quiet_env_def seeded_def history_request_def plain_request_def dec.simps)
  from history_by_id_absent [OF a b c d] a b c d show ?thesis
    by (simp add: list_all_iff)
qed

section \<open>The conversions on some inputs\<close>

lemmas literal_unfold =
  StringToNumber_def trim_def is_ws_def non_decimal_literal_def decimal_literal_def
  unsigned_literal_def unsigned_decimal_def integer_literal_def is_digit_def digit_in_def
  exponent_part_def pow10_def round_double_def round_double_pos_def floor_log2_def
  round_half_even_def pow2_def bit_length.simps Let_def

lemma StringToNumber_examples:
  "StringToNumber ''3'' = Fin 3"
  "StringToNumber '' 4e0'' = Fin 4"
  "StringToNumber ''0x1F'' = Fin 31"
  "StringToNumber '''' = Fin 0"
  "StringToNumber ''-Infinity'' = NegInf"
  "StringToNumber ''1,2'' = NaN"
  by (simp_all add: literal_unfold)

lemma ToNumber_examples:
  "ToNumber (JBool True) = Inr (Fin 1)"
  "ToNumber (JArr [JStr ''3'']) = Inr (Fin 3)"
  "ToNumber (JArr [JNum (Fin 1), JNum (Fin 2)]) = Inr NaN"
  "ToNumber (JObj [(''a'', JNull)]) = Inr NaN"
  "ToNumber (JObj [(''toString'', JNull)]) = Inl not_primitive"
  by (simp_all add: has_own_def StringToNumber_examples)

section \<open>Creating feedback\<close>

lemma feedback_request_fields:
  "parse_error (feedback_request c r) = None"
  "body (feedback_request c r) = JObj [(''comment'', c), (''rating'', r)]"
  by (simp_all add: feedback_request_def plain_request_def)

text \<open>
  For a rating that is a number the two guards do what their messages say: with a store
  that takes the statement, the answer is 201 for a rating from 1 to 4 and 400 otherwise
  (0 is caught by the first guard, as a falsy value).
\<close>

lemma post_feedback_number_rating:
  assumes "truthy c" and "pool_fault env = None"
    and "db_fault env InsertFeedback [c, JNum (Fin q)] = None"
  shows "status (fst (app env PostFeedback (feedback_request c (JNum (Fin q))) w)) =
           (if 1 \<le> q \<and> q \<le> 4 then 201 else 400)"
  using assms
  by (auto simp: app_post_feedback handle_def route_def catch_def post_feedback_try_def feedback_request_fields
      destructure_def get_prop_def js_lt_def js_gt_def query_runs success_def failure_def Let_def)

lemma StringToNumber_abc: "StringToNumber ''abc'' = NaN"
  by (simp add: StringToNumber_def trim_def is_ws_def non_decimal_literal_def decimal_literal_def
      unsigned_literal_def unsigned_decimal_def is_digit_def digit_in_def Let_def)

text \<open>
  C1. The range guard of \<^verbatim>\<open>POST /api/feedback\<close> does not stop a rating that is not a
  number. For the body \<^verbatim>\<open>{"comment": "great", "rating": "abc"}\<close> both comparisons are
  made with \<^verbatim>\<open>NaN\<close> and are false, so the insert is sent to the store: the answer is 201
  and the row is stored when the store takes the statement, and 500 when it does not; it
  is never 400.
\<close>

theorem post_feedback_text_rating:
  "status (fst (app env PostFeedback (feedback_request (JStr ''great'') (JStr ''abc'')) w)) =
     (if pool_fault env = None \<and> db_fault env InsertFeedback [JStr ''great'', JStr ''abc''] = None
      then 201 else 500)
   \<and> feedback (snd (app env PostFeedback (feedback_request (JStr ''great'') (JStr ''abc'')) w)) =
     (if pool_fault env = None \<and> db_fault env InsertFeedback [JStr ''great'', JStr ''abc''] = None
      then feedback w @ [\<lparr>feedback_id = next_id (map feedback_id (feedback w)),
                           comment = JStr ''great'', rating = JStr ''abc''\<rparr>]
      else feedback w)"
proof -
  let ?ps = "[JStr ''great'', JStr ''abc'']"
  have block: "post_feedback_try env (feedback_request (JStr ''great'') (JStr ''abc'')) w =
      (case query env InsertFeedback ?ps w of
         (Inl e, w1) \<Rightarrow> (Inl e, w1)
       | (Inr result, w1) \<Rightarrow>
           (Inr (success 201 (JObj [(''id'', get_prop result ''insertId''),
                                    (''comment'', JStr ''great''), (''rating'', JStr ''abc'')])), w1))"
    by (simp add: post_feedback_try_def feedback_request_fields destructure_def get_prop_def
        js_lt_def js_gt_def StringToNumber_abc Let_def)
  have pe: "parse_error (feedback_request (JStr ''great'') (JStr ''abc'')) = None"
    by (simp add: feedback_request_fields)
  show ?thesis
  proof (cases "pool_fault env")
    case (Some m)
    then show ?thesis
      by (simp add: app_post_feedback handle_def route_def catch_def block query_pool_fault failure_def pe)
  next
    case None
    show ?thesis
    proof (cases "db_fault env InsertFeedback ?ps")
      case (Some m)
      with None show ?thesis
        by (simp add: app_post_feedback handle_def route_def catch_def block query_db_fault failure_def pe)
    next
      case nofault: None
      with None show ?thesis
        by (simp add: app_post_feedback handle_def route_def catch_def block query_runs success_def pe
            release_def emit_def Let_def)
    qed
  qed
qed

section \<open>Updating the profile\<close>

subsection \<open>What the multipart middleware lets through\<close>

lemma accept_files_after_one: "accept_files field fs (Some a) = Inr r \<Longrightarrow> fs = [] \<and> r = Some a"
  by (cases fs) simp_all

lemma accept_files_shape:
  "accept_files field fs None = Inr r \<Longrightarrow> (fs = [] \<and> r = None) \<or> (\<exists>f. fs = [f] \<and> r = Some f)"
  by (cases fs) (auto split: if_splits sum.splits dest: accept_files_after_one)

lemma accept_files_checked:
  "accept_files field fs acc = Inr r \<Longrightarrow> f \<in> set fs \<Longrightarrow>
   mimetype f \<in> set allowedMimes \<and> length (buffer f) \<le> fileSize"
proof (induction fs arbitrary: acc)
  case Nil
  then show ?case by simp
next
  case (Cons a fs)
  then show ?case
    by (auto simp: fileFilter_def split: if_splits sum.splits)
qed

lemma profile_request_fields:
  "parse_error (profile_request n fs) = None"
  "body (profile_request n fs) = JObj [(''name'', n)]"
  "files (profile_request n fs) = fs"
  by (simp_all add: profile_request_def plain_request_def)

text \<open>
  C6. A request to \<^verbatim>\<open>PUT /api/profile\<close> that carries a file part whose MIME type is not
  one of \<^verbatim>\<open>image/jpeg\<close>, \<^verbatim>\<open>image/png\<close>, \<^verbatim>\<open>image/jpg\<close>, or whose content is longer than
  5 MiB, is answered by the error middleware with a 500 envelope, and nothing at all has
  happened to the collaborators: no object was written, no statement was executed, no
  connection was taken.
\<close>

theorem upload_rejected_before_any_mutation:
  assumes "f \<in> set (files req)"
    and "mimetype f \<notin> {''image/jpeg'', ''image/png'', ''image/jpg''}
         \<or> 5 * 1024 * 1024 < length (buffer f)"
  shows "\<exists>m. app env PutProfile req w =
           (\<lparr>status = 500,
             json = Some (JObj [(''success'', JBool False), (''message'', JStr m)])\<rparr>, w)"
proof (cases "parse_error req")
  case (Some m)
  then show ?thesis by (simp add: app_put_profile handle_def error_middleware_def failure_def)
next
  case None
  have "\<exists>e. upload_single ''profile_picture'' req = Inl e"
  proof (cases "upload_single ''profile_picture'' req")
    case (Inr r)
    then have "mimetype f \<in> set allowedMimes \<and> length (buffer f) \<le> fileSize"
      using accept_files_checked [of "''profile_picture''" "files req" None r f] assms(1)
      by (simp add: upload_single_def)
    with assms(2) show ?thesis by (simp add: allowedMimes_def fileSize_def)
  qed simp
  with None show ?thesis
    by (auto simp: app_put_profile handle_def route_def put_profile_def error_middleware_def failure_def)
qed

theorem upload_rejected_before_any_mutation_witness:
  "pdf \<in> set (files (profile_request (JStr ''Budi'') [pdf]))
   \<and> mimetype pdf \<notin> {''image/jpeg'', ''image/png'', ''image/jpg''}
   \<and> app quiet_env PutProfile (profile_request (JStr ''Budi'') [pdf]) seeded =
       (\<lparr>status = 500,
         json = Some (JObj [(''success'', JBool False),
                            (''message'', JStr ''File harus berupa gambar.'')])\<rparr>,
        seeded)"
proof -
  have a: "pdf \<in> set (files (profile_request (JStr ''Budi'') [pdf]))"
    by (simp add: profile_request_fields)
  have b: "mimetype pdf \<notin> {''image/jpeg'', ''image/png'', ''image/jpg''}"
    by (simp add: pdf_def)
  then have b': "mimetype pdf \<notin> {''image/jpeg'', ''image/png'', ''image/jpg''}
         \<or> 5 * 1024 * 1024 < length (buffer pdf)" by simp
  have c: "upload_single ''profile_picture'' (profile_request (JStr ''Budi'') [pdf])
             = Inl (Error ''File harus berupa gambar.'')"
    by (simp add: upload_single_def profile_request_fields pdf_def fileFilter_def allowedMimes_def)
  from upload_rejected_before_any_mutation [OF a b', of quiet_env seeded] a b c show ?thesis
    by (simp add: app_put_profile handle_def route_def put_profile_def error_middleware_def failure_def
        profile_request_fields)
qed


subsection \<open>A failed upload\<close>

text \<open>
  C4. When multer has let a file through, the name is present and the write to object
  storage fails, \<^verbatim>\<open>PUT /api/profile\<close> answers 500 with the storage error's message, and
  the only thing that has happened is the attempt to write: no statement was executed,
  so the profile table is as it was.
\<close>

theorem failed_upload_leaves_profile:
  assumes "parse_error req = None"
    and "upload_single ''profile_picture'' req = Inr (Some f)"
    and "truthy (get_prop (body req) ''name'')"
    and "storage_fault env (blob_name env f) = Some m"
  shows "app env PutProfile req w =
           (\<lparr>status = 500,
             json = Some (JObj [(''success'', JBool False), (''message'', JStr m)])\<rparr>,
            w\<lparr>trace := trace w @ [Write (blob_name env f)]\<rparr>)"
proof -
  from assms(3) obtain kvs where "body req = JObj kvs"
    by (cases "body req") (simp_all add: get_prop_def)
  with assms show ?thesis
    by (simp add: app_put_profile handle_def route_def put_profile_def catch_def put_profile_try_def destructure_def
        upload_if_present_def uploadFile_def emit_def failure_def Let_def)
qed

theorem failed_upload_leaves_profile_witness:
  "parse_error (profile_request (JStr ''Siti'') [photo]) = None
   \<and> upload_single ''profile_picture'' (profile_request (JStr ''Siti'') [photo]) = Inr (Some photo)
   \<and> truthy (get_prop (body (profile_request (JStr ''Siti'') [photo])) ''name'')
   \<and> storage_fault storage_down_env (blob_name storage_down_env photo) = Some ''socket hang up''
   \<and> app storage_down_env PutProfile (profile_request (JStr ''Siti'') [photo]) seeded =
       (\<lparr>status = 500,
         json = Some (JObj [(''success'', JBool False), (''message'', JStr ''socket hang up'')])\<rparr>,
        seeded\<lparr>trace := [Write ''profiles/1700000000000-me.png'']\<rparr>)"
proof -
  have a: "parse_error (profile_request (JStr ''Siti'') [photo]) = None"
    by (simp add: profile_request_fields)
  have b: "upload_single ''profile_picture'' (profile_request (JStr ''Siti'') [photo]) = Inr (Some photo)"
    by (simp add: upload_single_def profile_request_fields photo_def fileFilter_def allowedMimes_def
        fileSize_def)
  have c: "truthy (get_prop (body (profile_request (JStr ''Siti'') [photo])) ''name'')"
    by (simp add: profile_request_fields get_prop_def)
  have d: "storage_fault storage_down_env (blob_name storage_down_env photo) = Some ''socket hang up''"
    by (simp add: storage_down_env_def)
  from failed_upload_leaves_profile [OF a b c d, of seeded] a b c d show ?thesis
    by (simp add: blob_name_def storage_down_env_def quiet_env_def photo_def dec_now seeded_def)
qed

subsection \<open>A successful update\<close>

lemma destructure_Inr: "destructure v k = Inr b \<Longrightarrow> b = v"
  by (auto simp: destructure_def split: jsval.splits)

lemma put_profile_ok:
  assumes "app env PutProfile req w = (res, w')" and "status res = 200"
  obtains fl where "parse_error req = None" and "upload_single ''profile_picture'' req = Inr fl"
    and "put_profile_try env req fl w = (Inr res, w')"
proof -
  from assms have pe: "parse_error req = None"
    by (auto simp: app_put_profile handle_def error_middleware_def failure_def split: option.splits)
  with assms obtain fl where f: "upload_single ''profile_picture'' req = Inr fl"
    by (cases "upload_single ''profile_picture'' req")
       (auto simp: app_put_profile handle_def route_def put_profile_def error_middleware_def failure_def)
  with pe assms have "put_profile_try env req fl w = (Inr res, w')"
    by (auto simp: app_put_profile handle_def route_def put_profile_def catch_def failure_def split: prod.splits sum.splits)
  with pe f show ?thesis using that by blast
qed

lemma put_profile_try_ok:
  assumes "put_profile_try env req fl w = (Inr res, w')" and "status res = 200"
  obtains p w1 result where "truthy (get_prop (body req) ''name'')"
    and "upload_if_present env fl w = (Inr p, w1)"
    and "query env (if truthy p then UpdateProfilePicture else UpdateProfileName)
           (if truthy p then [get_prop (body req) ''name'', p] else [get_prop (body req) ''name'']) w1
         = (Inr result, w')"
    and "res = success 200 (JObj [(''name'', get_prop (body req) ''name''), (''profile_picture_url'', p)])"
  using assms
  by (auto simp: put_profile_try_def Let_def failure_def dest!: destructure_Inr
      split: sum.splits if_splits prod.splits)

lemma upload_if_present_none: "upload_if_present env None w = (Inr JNull, w)"
  by (simp add: upload_if_present_def)

lemma upload_if_present_some:
  "upload_if_present env (Some f) w = (Inr p, w1) \<Longrightarrow>
   p = JStr (publicUrl env (blob_name env f)) \<and> storage_fault env (blob_name env f) = None
   \<and> w1 = put_object (blob_name env f) (mimetype f, buffer f) (emit (Write (blob_name env f)) w)"
  by (auto simp: upload_if_present_def uploadFile_def Let_def split: option.splits)

lemma publicUrl_nonempty: "publicUrl env b \<noteq> []"
  by (simp add: publicUrl_def)

lemma query_update_name:
  assumes "query env UpdateProfileName [n] w = (Inr result, w')"
  shows "profile w' = map (\<lambda>r. if profile_id r = 1 then r\<lparr>name := n\<rparr> else r) (profile w)
         \<and> trace w' = trace w @ [Acquire, Execute UpdateProfileName [n], Release]"
  using assms
  by (cases rule: query_cases [of env UpdateProfileName "[n]" w])
     (auto simp: release_def emit_def)

lemma query_update_picture:
  assumes "query env UpdateProfilePicture [n, u] w = (Inr result, w')"
  shows "profile w' =
           map (\<lambda>r. if profile_id r = 1 then r\<lparr>name := n, profile_picture_url := u\<rparr> else r) (profile w)
         \<and> trace w' = trace w @ [Acquire, Execute UpdateProfilePicture [n, u], Release]"
  using assms
  by (cases rule: query_cases [of env UpdateProfilePicture "[n, u]" w])
     (auto simp: release_def emit_def)

lemma query_update_name_world:
  assumes "query env UpdateProfileName [n] w = (Inr result, w')"
  shows "w' = w\<lparr>profile := map (\<lambda>r. if profile_id r = 1 then r\<lparr>name := n\<rparr> else r) (profile w),
                 trace := trace w @ [Acquire, Execute UpdateProfileName [n], Release]\<rparr>"
  using assms
  by (cases rule: query_cases [of env UpdateProfileName "[n]" w])
     (auto simp: release_def emit_def)

lemma query_update_picture_world:
  assumes "query env UpdateProfilePicture [n, u] w = (Inr result, w')"
  shows "w' = w\<lparr>profile := map (\<lambda>r. if profile_id r = 1
                                       then r\<lparr>name := n, profile_picture_url := u\<rparr> else r)
                                 (profile w),
                 trace := trace w @ [Acquire, Execute UpdateProfilePicture [n, u], Release]\<rparr>"
  using assms
  by (cases rule: query_cases [of env UpdateProfilePicture "[n, u]" w])
     (auto simp: release_def emit_def)

text \<open>Two runs of the route on the sample deployment: a new name alone, and a new name with a photo.\<close>

lemmas put_profile_unfold =
  app_put_profile handle_def route_def put_profile_def upload_single_def fileFilter_def
  allowedMimes_def fileSize_def
  catch_def put_profile_try_def destructure_def get_prop_def upload_if_present_def uploadFile_def
  blob_name_def publicUrl_def put_object_def emit_def query_def getConnection_def execute_def
  release_def success_def failure_def result_header_def Let_def

lemma put_name_only_run:
  "app quiet_env PutProfile (profile_request (JStr ''Siti'') []) seeded =
     (\<lparr>status = 200,
       json = Some (JObj [(''success'', JBool True),
                          (''data'', JObj [(''name'', JStr ''Siti''),
                                           (''profile_picture_url'', JNull)])])\<rparr>,
      seeded\<lparr>profile := [owner_row\<lparr>name := JStr ''Siti''\<rparr>],
             trace := [Acquire, Execute UpdateProfileName [JStr ''Siti''], Release]\<rparr>)"
  by (simp add: put_profile_unfold profile_request_fields quiet_env_def seeded_def owner_row_def)

lemma put_with_photo_run:
  "app quiet_env PutProfile (profile_request (JStr ''Siti'') [photo]) seeded =
     (\<lparr>status = 200,
       json = Some (JObj [(''success'', JBool True),
                          (''data'', JObj [(''name'', JStr ''Siti''),
                                           (''profile_picture_url'',
                                            JStr ''https://storage.googleapis.com/handlips/profiles/1700000000000-me.png'')])])\<rparr>,
      seeded\<lparr>profile := [owner_row\<lparr>name := JStr ''Siti'',
                                    profile_picture_url :=
                                      JStr ''https://storage.googleapis.com/handlips/profiles/1700000000000-me.png''\<rparr>],
             objects := [(''profiles/1700000000000-me.png'', ''image/png'', [137, 80, 78, 71])],
             trace := [Write ''profiles/1700000000000-me.png'', Acquire,
                       Execute UpdateProfilePicture
                         [JStr ''Siti'',
                          JStr ''https://storage.googleapis.com/handlips/profiles/1700000000000-me.png''],
                       Release]\<rparr>)"
  by (simp add: put_profile_unfold profile_request_fields quiet_env_def seeded_def owner_row_def
      photo_def dec_now)

text \<open>
  C2. A 200 answer of \<^verbatim>\<open>PUT /api/profile\<close> comes about in one of two ways, and in both
  its body is the envelope around the name of the request and a picture field.
  Either the request carried no file: then the picture field is \<^verbatim>\<open>null\<close>, and all that
  has happened is the one statement that writes this name into the row with id 1
  (nothing is read back, nothing is uploaded). Or the request carried one file: then
  the picture field is the address that \<open>uploadFile\<close> returns for this file in this
  state, the file's bytes have been written to the bucket under the name just derived,
  and the one statement executed afterwards writes the name of the answer and this
  very address into the row with id 1. Nothing else has changed in either case.
\<close>

theorem put_profile_response:
  assumes "app env PutProfile req w = (res, w')" and "status res = 200"
  shows "\<exists>p. json res = Some (JObj [(''success'', JBool True),
                                     (''data'', JObj [(''name'', get_prop (body req) ''name''),
                                                      (''profile_picture_url'', p)])])
           \<and> ((files req = [] \<and> p = JNull
                \<and> w' = w\<lparr>profile := map (\<lambda>r. if profile_id r = 1
                                               then r\<lparr>name := get_prop (body req) ''name''\<rparr> else r)
                                         (profile w),
                         trace := trace w @ [Acquire,
                                             Execute UpdateProfileName [get_prop (body req) ''name''],
                                             Release]\<rparr>)
               \<or> (\<exists>f. files req = [f]
                     \<and> p = JStr (publicUrl env (blob_name env f))
                     \<and> fst (uploadFile env f w) = Inr (publicUrl env (blob_name env f))
                     \<and> w' = w\<lparr>profile := map (\<lambda>r. if profile_id r = 1
                                                    then r\<lparr>name := get_prop (body req) ''name'',
                                                           profile_picture_url :=
                                                             JStr (publicUrl env (blob_name env f))\<rparr>
                                                    else r)
                                              (profile w),
                              objects := (blob_name env f, mimetype f, buffer f)
                                         # filter (\<lambda>kv. fst kv \<noteq> blob_name env f) (objects w),
                              trace := trace w @ [Write (blob_name env f), Acquire,
                                                  Execute UpdateProfilePicture
                                                    [get_prop (body req) ''name'',
                                                     JStr (publicUrl env (blob_name env f))],
                                                  Release]\<rparr>))"
proof -
  from assms obtain fl where pe: "parse_error req = None"
    and up: "upload_single ''profile_picture'' req = Inr fl"
    and tr: "put_profile_try env req fl w = (Inr res, w')"
    by (rule put_profile_ok)
  from tr assms(2) obtain p w1 result where n: "truthy (get_prop (body req) ''name'')"
    and u: "upload_if_present env fl w = (Inr p, w1)"
    and q: "query env (if truthy p then UpdateProfilePicture else UpdateProfileName)
           (if truthy p then [get_prop (body req) ''name'', p] else [get_prop (body req) ''name'']) w1
         = (Inr result, w')"
    and r: "res = success 200 (JObj [(''name'', get_prop (body req) ''name''), (''profile_picture_url'', p)])"
    by (rule put_profile_try_ok)
  from up have shape: "(files req = [] \<and> fl = None) \<or> (\<exists>f. files req = [f] \<and> fl = Some f)"
    by (simp add: upload_single_def accept_files_shape)
  show ?thesis
  proof (cases fl)
    case None
    with shape have fs: "files req = []" by auto
    from None u have p: "p = JNull" and w1: "w1 = w" by (simp_all add: upload_if_present_none)
    from q p w1 have q': "query env UpdateProfileName [get_prop (body req) ''name''] w = (Inr result, w')"
      by simp
    from query_update_name_world [OF q'] fs p r show ?thesis
      by (simp add: success_def)
  next
    case (Some f)
    with shape have fs: "files req = [f]" by auto
    from Some u have p: "p = JStr (publicUrl env (blob_name env f))"
      and ok: "storage_fault env (blob_name env f) = None"
      and w1: "w1 = put_object (blob_name env f) (mimetype f, buffer f) (emit (Write (blob_name env f)) w)"
      using upload_if_present_some [of env f w p w1] by simp_all
    from ok have up: "fst (uploadFile env f w) = Inr (publicUrl env (blob_name env f))"
      by (simp add: uploadFile_def Let_def)
    from q p have q': "query env UpdateProfilePicture
          [get_prop (body req) ''name'', JStr (publicUrl env (blob_name env f))] w1 = (Inr result, w')"
      by (simp add: publicUrl_nonempty)
    from query_update_picture_world [OF q'] w1 have "w' =
        w\<lparr>profile := map (\<lambda>r. if profile_id r = 1
                               then r\<lparr>name := get_prop (body req) ''name'',
                                      profile_picture_url := JStr (publicUrl env (blob_name env f))\<rparr>
                               else r)
                         (profile w),
          objects := (blob_name env f, mimetype f, buffer f)
                     # filter (\<lambda>kv. fst kv \<noteq> blob_name env f) (objects w),
          trace := trace w @ [Write (blob_name env f), Acquire,
                              Execute UpdateProfilePicture
                                [get_prop (body req) ''name'', JStr (publicUrl env (blob_name env f))],
                              Release]\<rparr>"
      by (simp add: put_object_def emit_def)
    with fs p r up show ?thesis
      by (simp add: success_def)
  qed
qed

theorem put_profile_response_witness:
  "app quiet_env PutProfile (profile_request (JStr ''Siti'') []) seeded =
     (\<lparr>status = 200,
       json = Some (JObj [(''success'', JBool True),
                          (''data'', JObj [(''name'', JStr ''Siti''),
                                           (''profile_picture_url'', JNull)])])\<rparr>,
      seeded\<lparr>profile := [owner_row\<lparr>name := JStr ''Siti''\<rparr>],
             trace := [Acquire, Execute UpdateProfileName [JStr ''Siti''], Release]\<rparr>)
   \<and> app quiet_env PutProfile (profile_request (JStr ''Siti'') [photo]) seeded =
     (\<lparr>status = 200,
       json = Some (JObj [(''success'', JBool True),
                          (''data'', JObj [(''name'', JStr ''Siti''),
                                           (''profile_picture_url'',
                                            JStr ''https://storage.googleapis.com/handlips/profiles/1700000000000-me.png'')])])\<rparr>,
      seeded\<lparr>profile := [owner_row\<lparr>name := JStr ''Siti'',
                                    profile_picture_url :=
                                      JStr ''https://storage.googleapis.com/handlips/profiles/1700000000000-me.png''\<rparr>],
             objects := [(''profiles/1700000000000-me.png'', ''image/png'', [137, 80, 78, 71])],
             trace := [Write ''profiles/1700000000000-me.png'', Acquire,
                       Execute UpdateProfilePicture
                         [JStr ''Siti'',
                          JStr ''https://storage.googleapis.com/handlips/profiles/1700000000000-me.png''],
                       Release]\<rparr>)"
proof -
  have a: "status (fst (app quiet_env PutProfile (profile_request (JStr ''Siti'') []) seeded)) = 200"
    by (simp add: put_name_only_run)
  have b: "status (fst (app quiet_env PutProfile (profile_request (JStr ''Siti'') [photo]) seeded)) = 200"
    by (simp add: put_with_photo_run)
  from put_profile_response [OF prod.collapse [symmetric] a]
       put_profile_response [OF prod.collapse [symmetric] b]
  show ?thesis
    by (simp add: put_name_only_run put_with_photo_run)
qed

text \<open>
  C3. After a 200 answer of \<^verbatim>\<open>PUT /api/profile\<close> to a request without a file, the
  profile table is the old one with the name of the row with id 1 replaced, so the
  column \<^verbatim>\<open>profile_picture_url\<close> is what it was in every row. After a 200 answer to a
  request with a file, the row with id 1 holds the new name and, as its picture, the
  address built from the bucket name, the clock reading at the upload and the file's
  original name; the other rows are as they were.
\<close>

theorem put_profile_stored:
  assumes "app env PutProfile req w = (res, w')" and "status res = 200"
  shows "(files req = [] \<longrightarrow>
            profile w' = map (\<lambda>r. if profile_id r = 1 then r\<lparr>name := get_prop (body req) ''name''\<rparr> else r)
                             (profile w)
            \<and> map profile_picture_url (profile w') = map profile_picture_url (profile w))
         \<and> (\<forall>f. files req = [f] \<longrightarrow>
              profile w' =
                map (\<lambda>r. if profile_id r = 1
                          then r\<lparr>name := get_prop (body req) ''name'',
                                 profile_picture_url :=
                                   JStr (''https://storage.googleapis.com/'' @ bucket_name env @ ''/''
                                         @ ''profiles/'' @ dec (now env) @ ''-'' @ originalname f)\<rparr>
                          else r)
                    (profile w))"
proof -
  from assms obtain fl where pe: "parse_error req = None"
    and up: "upload_single ''profile_picture'' req = Inr fl"
    and tr: "put_profile_try env req fl w = (Inr res, w')"
    by (rule put_profile_ok)
  from tr assms(2) obtain p w1 result where n: "truthy (get_prop (body req) ''name'')"
    and u: "upload_if_present env fl w = (Inr p, w1)"
    and q: "query env (if truthy p then UpdateProfilePicture else UpdateProfileName)
           (if truthy p then [get_prop (body req) ''name'', p] else [get_prop (body req) ''name'']) w1
         = (Inr result, w')"
    by (rule put_profile_try_ok)
  from up have shape: "(files req = [] \<and> fl = None) \<or> (\<exists>f. files req = [f] \<and> fl = Some f)"
    by (simp add: upload_single_def accept_files_shape)
  show ?thesis
  proof (cases fl)
    case None
    with shape have fs: "files req = []" by auto
    from None u have "p = JNull" and "w1 = w" by (simp_all add: upload_if_present_none)
    with q have "profile w' = map (\<lambda>r. if profile_id r = 1 then r\<lparr>name := get_prop (body req) ''name''\<rparr> else r)
                             (profile w)"
      using query_update_name [of env "get_prop (body req) ''name''" w result w'] by simp
    moreover from this have "map profile_picture_url (profile w') = map profile_picture_url (profile w)"
      by (simp add: comp_def if_distrib cong: if_cong)
    ultimately show ?thesis using fs by simp
  next
    case (Some f)
    with shape have fs: "files req = [f]" by auto
    from Some u have p: "p = JStr (publicUrl env (blob_name env f))"
      and w1: "w1 = put_object (blob_name env f) (mimetype f, buffer f) (emit (Write (blob_name env f)) w)"
      using upload_if_present_some [of env f w p w1] by simp_all
    from q p have q': "query env UpdateProfilePicture
          [get_prop (body req) ''name'', JStr (publicUrl env (blob_name env f))] w1 = (Inr result, w')"
      by (simp add: publicUrl_nonempty)
    from query_update_picture [OF q'] have "profile w' =
        map (\<lambda>r. if profile_id r = 1
                  then r\<lparr>name := get_prop (body req) ''name'',
                         profile_picture_url := JStr (publicUrl env (blob_name env f))\<rparr> else r)
            (profile w1)"
      by simp
    with w1 fs show ?thesis
      by (simp add: put_object_def emit_def publicUrl_def blob_name_def)
  qed
qed

theorem put_profile_stored_witness:
  "status (fst (app quiet_env PutProfile (profile_request (JStr ''Siti'') []) seeded)) = 200
   \<and> files (profile_request (JStr ''Siti'') []) = []
   \<and> profile seeded = [owner_row]
   \<and> profile (snd (app quiet_env PutProfile (profile_request (JStr ''Siti'') []) seeded)) =
       [\<lparr>profile_id = 1, name = JStr ''Siti'', profile_picture_url = JStr stored_url\<rparr>]
   \<and> status (fst (app quiet_env PutProfile (profile_request (JStr ''Siti'') [photo]) seeded)) = 200
   \<and> files (profile_request (JStr ''Siti'') [photo]) = [photo]
   \<and> profile (snd (app quiet_env PutProfile (profile_request (JStr ''Siti'') [photo]) seeded)) =
       [\<lparr>profile_id = 1, name = JStr ''Siti'',
         profile_picture_url =
           JStr ''https://storage.googleapis.com/handlips/profiles/1700000000000-me.png''\<rparr>]"
proof -
  have a: "status (fst (app quiet_env PutProfile (profile_request (JStr ''Siti'') []) seeded)) = 200"
    by (simp add: put_name_only_run)
  have b: "status (fst (app quiet_env PutProfile (profile_request (JStr ''Siti'') [photo]) seeded)) = 200"
    by (simp add: put_with_photo_run)
  have c: "files (profile_request (JStr ''Siti'') []) = []"
    and d: "files (profile_request (JStr ''Siti'') [photo]) = [photo]"
    by (simp_all add: profile_request_fields)
  have e: "profile seeded = [owner_row]"
    by (simp add: seeded_def)
  from put_profile_stored [OF prod.collapse [symmetric] a]
       put_profile_stored [OF prod.collapse [symmetric] b] a b c d e
  show ?thesis
    by (simp add: owner_row_def quiet_env_def photo_def dec_now profile_request_fields get_prop_def)
qed


section \<open>The row that is read and the row that is written\<close>










end
